theory Spec2Isabelle
  imports Complex_Main "HOL-Library.Char_ord" "HOL-Library.List_Lexorder"
begin

section \<open>Shared data: backend rows, responses, permissions\<close>

text \<open>
  The views talk to a hosted backend through a query builder. A row of a backend table is
  kept as the list of its columns, each a column name with the value as text (identifiers
  and ISO dates are text in the source too). The awaited result of a query is the
  object \<^verbatim>\<open>{ data, error, count }\<close>: \<open>error\<close> is the error's message when the call
  failed, \<open>data\<close> and \<open>count\<close> may be null.
\<close>

type_synonym row = "(string \<times> string) list"

record 'r response =
  data :: "'r list option"
  error :: "string option"
  count :: "nat option"

text \<open>\<^verbatim>\<open>data || []\<close> and \<^verbatim>\<open>count || 0\<close>.\<close>

definition data_or_empty :: "'r response \<Rightarrow> 'r list" where
  "data_or_empty r = (case data r of None \<Rightarrow> [] | Some d \<Rightarrow> d)"

definition count_or_zero :: "'r response \<Rightarrow> nat" where
  "count_or_zero r = (case count r of None \<Rightarrow> 0 | Some n \<Rightarrow> n)"

text \<open>
  \<^verbatim>\<open>r.c\<close> on a row object; a column that is absent reads as \<^verbatim>\<open>undefined\<close>, which
  the query builder writes into a filter as the text \<^verbatim>\<open>undefined\<close>.
\<close>

definition field :: "row \<Rightarrow> string \<Rightarrow> string" where
  "field r c = (case map_of r c of None \<Rightarrow> ''undefined'' | Some v \<Rightarrow> v)"

text \<open>The interface \<^verbatim>\<open>AppPermission\<close> (the flags the views read).\<close>

record AppPermission =
  can_view :: bool
  can_create :: bool
  can_edit :: bool
  can_delete :: bool

text \<open>
  \<^verbatim>\<open>pagePermissions?.can_view\<close> and \<^verbatim>\<open>pagePermissions?.can_create\<close>: the
  permission record of a page may be absent, and then the flag reads as falsy.
\<close>

definition may_view :: "AppPermission option \<Rightarrow> bool" where
  "may_view pagePermissions = (case pagePermissions of None \<Rightarrow> False | Some p \<Rightarrow> can_view p)"

definition may_create :: "AppPermission option \<Rightarrow> bool" where
  "may_create pagePermissions = (case pagePermissions of None \<Rightarrow> False | Some p \<Rightarrow> can_create p)"

text \<open>A JavaScript \<^verbatim>\<open>Set<string>\<close> keeps its members in insertion order, without
  repetition: a list. The toggle of both report views is
  \<^verbatim>\<open>if (newSet.has(id)) newSet.delete(id); else newSet.add(id);\<close> on a copy.\<close>

definition toggle :: "string \<Rightarrow> string list \<Rightarrow> string list" where
  "toggle i newSet = (if i \<in> set newSet then removeAll i newSet else newSet @ [i])"

section \<open>ProductInsert: the customer search\<close>

record Customer =
  cust_id :: string
  customer_code :: string
  name :: string

text \<open>
  The request the timer callback sends:
  \<^verbatim>\<open>from('customers').select('*').or(`name.ilike.%..%,customer_code.ilike.%..%`).limit(10)\<close>.
\<close>

record search_query =
  sq_from :: string
  sq_select :: string
  sq_or :: string
  sq_limit :: nat

definition customer_search_query :: "string \<Rightarrow> search_query" where
  "customer_search_query lowercased =
     \<lparr>sq_from = ''customers'', sq_select = ''*'',
      sq_or = ''name.ilike.%'' @ lowercased @ ''%,customer_code.ilike.%'' @ lowercased @ ''%'',
      sq_limit = 10\<rparr>"

text \<open>
  The state of the component that the search effect and \<^verbatim>\<open>handleSave\<close> read and write,
  with what the browser holds for it: the clock (milliseconds), the timer that
  \<^verbatim>\<open>debounceTimeout.current\<close> refers to (its deadline and the \<^verbatim>\<open>customerSearch\<close>
  its callback closed over; \<open>None\<close> when no timer is waiting, a timer that has fired
  or was cleared being inert), the requests sent so far in order, the positions in that
  list of the requests still awaiting their response, and the console.
\<close>

record product_insert =
  isSaving :: bool
  customerId :: string
  customerSearch :: string
  filteredCustomers :: "Customer list"
  isCustomerDropdownOpen :: bool
  productName :: string
  insertPrice :: "real option"
  startDate :: string
  endDate :: string
  photoFiles :: "string list"
  now :: nat
  debounceTimeout :: "(nat \<times> string) option"
  issued :: "search_query list"
  awaiting :: "nat list"
  console :: "string list"

definition initial_product_insert :: product_insert where
  "initial_product_insert =
     \<lparr>isSaving = False, customerId = [], customerSearch = [], filteredCustomers = [],
      isCustomerDropdownOpen = False, productName = [], insertPrice = None,
      startDate = [], endDate = [], photoFiles = [], now = 0, debounceTimeout = None,
      issued = [], awaiting = [], console = []\<rparr>"

definition quiet_period :: nat where
  "quiet_period = 300"

text \<open>
  The effect with dependency \<^verbatim>\<open>[customerSearch]\<close>, as it runs after a render in which
  \<^verbatim>\<open>customerSearch\<close> changed: the cleanup of the previous run and the first line both
  clear the waiting timer; a non-empty input starts a new timer, an empty one clears the
  list.
\<close>

definition search_effect :: "product_insert \<Rightarrow> product_insert" where
  "search_effect st =
     (if customerSearch st \<noteq> []
      then st\<lparr>debounceTimeout := Some (now st + quiet_period, customerSearch st)\<rparr>
      else st\<lparr>debounceTimeout := None, filteredCustomers := []\<rparr>)"

text \<open>\<^verbatim>\<open>setCustomerSearch(s)\<close>: a state update to the value already held causes no
  render and so no run of the effect.\<close>

definition setCustomerSearch :: "string \<Rightarrow> product_insert \<Rightarrow> product_insert" where
  "setCustomerSearch s st =
     (if s = customerSearch st then st else search_effect (st\<lparr>customerSearch := s\<rparr>))"

text \<open>The \<^verbatim>\<open>onChange\<close> handler of the search input.\<close>

definition onChange_search :: "string \<Rightarrow> product_insert \<Rightarrow> product_insert" where
  "onChange_search v st =
     (let st1 = setCustomerSearch v st;
          st2 = st1\<lparr>isCustomerDropdownOpen := True\<rparr>
      in if v = [] then st2\<lparr>customerId := []\<rparr> else st2)"

definition handleSelectCustomer :: "Customer \<Rightarrow> product_insert \<Rightarrow> product_insert" where
  "handleSelectCustomer customer st =
     (setCustomerSearch (name customer) (st\<lparr>customerId := cust_id customer\<rparr>))
       \<lparr>isCustomerDropdownOpen := False\<rparr>"

text \<open>
  The first half of the timer callback, up to the \<^verbatim>\<open>await\<close>: the request is built from
  the string the callback closed over and sent. \<open>toLowerCase\<close> stands for the method
  of JavaScript strings.
\<close>

definition timer_fires :: "(string \<Rightarrow> string) \<Rightarrow> string \<Rightarrow> product_insert \<Rightarrow> product_insert" where
  "timer_fires toLowerCase captured st =
     st\<lparr>debounceTimeout := None,
        issued := issued st @ [customer_search_query (toLowerCase captured)],
        awaiting := awaiting st @ [length (issued st)]\<rparr>"

text \<open>Time passes by \<open>d\<close> milliseconds with no other event; a timer whose deadline is
  reached fires.\<close>

definition elapse :: "(string \<Rightarrow> string) \<Rightarrow> nat \<Rightarrow> product_insert \<Rightarrow> product_insert" where
  "elapse toLowerCase d st =
     (let st1 = st\<lparr>now := now st + d\<rparr>
      in case debounceTimeout st of
           None \<Rightarrow> st1
         | Some (deadline, captured) \<Rightarrow>
             if deadline \<le> now st + d then timer_fires toLowerCase captured st1 else st1)"

text \<open>
  The second half of the callback, after the \<^verbatim>\<open>await\<close>: the response to request number
  \<open>k\<close> arrives.
  \<^verbatim>\<open>if (error) console.error(..) else setFilteredCustomers(data || [])\<close>.
\<close>

definition completes :: "nat \<Rightarrow> Customer response \<Rightarrow> product_insert \<Rightarrow> product_insert" where
  "completes k r st =
     (if k \<notin> set (awaiting st) then st
      else let st1 = st\<lparr>awaiting := removeAll k (awaiting st)\<rparr>
           in case error r of
                Some msg \<Rightarrow> st1\<lparr>console := console st1 @ [''Customer search error: '' @ msg]\<rparr>
              | None \<Rightarrow> st1\<lparr>filteredCustomers := data_or_empty r\<rparr>)"

datatype search_event =
    Input string
  | Select Customer
  | Elapse nat
  | Completes nat "Customer response"

fun search_step :: "(string \<Rightarrow> string) \<Rightarrow> product_insert \<Rightarrow> search_event \<Rightarrow> product_insert" where
  "search_step lc st (Input v) = onChange_search v st"
| "search_step lc st (Select c) = handleSelectCustomer c st"
| "search_step lc st (Elapse d) = elapse lc d st"
| "search_step lc st (Completes k r) = completes k r st"

definition search_run :: "(string \<Rightarrow> string) \<Rightarrow> search_event list \<Rightarrow> product_insert" where
  "search_run lc evs = foldl (search_step lc) (search_effect initial_product_insert) evs"

text \<open>
  The reading of "superseded" used for the race-safety sentence: request \<open>k\<close> is still
  awaited, and a later request was sent, or a later resolution waits in its quiet
  period, or the input is empty.
\<close>

definition superseded :: "product_insert \<Rightarrow> nat \<Rightarrow> bool" where
  "superseded st k =
     (k \<in> set (awaiting st) \<and>
      (Suc k < length (issued st) \<or> debounceTimeout st \<noteq> None \<or> customerSearch st = []))"

definition ok :: "'r list \<Rightarrow> 'r response" where
  "ok rows = \<lparr>data = Some rows, error = None, count = None\<rparr>"

definition failed :: "string \<Rightarrow> 'r response" where
  "failed msg = \<lparr>data = None, error = Some msg, count = None\<rparr>"


section \<open>The backend the report views query\<close>

datatype filter =
    F_gte string string
  | F_lte string string
  | F_eq string string
  | F_in string "string list"

text \<open>
  What the query builder has collected when the query is awaited: \<^verbatim>\<open>from\<close>,
  \<^verbatim>\<open>select\<close> (with \<^verbatim>\<open>{ count: 'exact' }\<close> or not), the filters in the order they were
  added, \<^verbatim>\<open>order(column, { ascending })\<close> and \<^verbatim>\<open>range(from, to)\<close>.
\<close>

record query =
  q_from :: string
  q_select :: string
  q_count :: bool
  q_filters :: "filter list"
  q_order :: "(string \<times> bool) option"
  q_range :: "(int \<times> int) option"

text \<open>
  Modelled from the spec: the remote data backend is an external service, consumed through
  the contract \<^verbatim>\<open>query(collection, filters[], order, rangeOffset, rangeLimit, withCount)
  -> (records[], totalCount?) | Error\<close> with set-membership (\<^verbatim>\<open>field \<in> values\<close>),
  equality and range (\<^verbatim>\<open>gte\<close>/\<^verbatim>\<open>lte\<close>) filters that compose conjunctively. Values
  are compared as text, which orders ISO dates of one format chronologically (two
  notations of one instant, as \<^verbatim>\<open>Z\<close> and \<^verbatim>\<open>+00:00\<close>, are different texts); the count
  is that of all matching records, the page is cut from them after ordering. A range
  that starts before the first record is answered with an error.
\<close>

fun satisfies :: "row \<Rightarrow> filter \<Rightarrow> bool" where
  "satisfies r (F_gte c v) = (case map_of r c of None \<Rightarrow> False | Some x \<Rightarrow> v \<le> x)"
| "satisfies r (F_lte c v) = (case map_of r c of None \<Rightarrow> False | Some x \<Rightarrow> x \<le> v)"
| "satisfies r (F_eq c v) = (map_of r c = Some v)"
| "satisfies r (F_in c vs) = (case map_of r c of None \<Rightarrow> False | Some x \<Rightarrow> x \<in> set vs)"

definition matching :: "row list \<Rightarrow> filter list \<Rightarrow> row list" where
  "matching rows fs = filter (\<lambda>r. list_all (satisfies r) fs) rows"

definition ordered :: "(string \<times> bool) option \<Rightarrow> row list \<Rightarrow> row list" where
  "ordered ord rows =
     (case ord of
        None \<Rightarrow> rows
      | Some (c, ascending) \<Rightarrow>
          if ascending then sort_key (\<lambda>r. field r c) rows
          else rev (sort_key (\<lambda>r. field r c) rows))"

definition run_query :: "(string \<Rightarrow> row list) \<Rightarrow> query \<Rightarrow> row response" where
  "run_query db q =
     (let found = ordered (q_order q) (matching (db (q_from q)) (q_filters q));
          total = (if q_count q then Some (length found) else None)
      in case q_range q of
           None \<Rightarrow> \<lparr>data = Some found, error = None, count = total\<rparr>
         | Some (lo, hi) \<Rightarrow>
             if lo < 0 then failed ''Requested range not satisfiable''
             else \<lparr>data = Some (take (nat (hi - lo + 1)) (drop (nat lo) found)),
                   error = None, count = total\<rparr>)"

text \<open>A backend on which the calls that \<open>fails\<close> names fail with the message it gives.\<close>

definition with_faults :: "(query \<Rightarrow> string option) \<Rightarrow> (query \<Rightarrow> row response) \<Rightarrow> query \<Rightarrow> row response" where
  "with_faults fails backend q = (case fails q of Some msg \<Rightarrow> failed msg | None \<Rightarrow> backend q)"

text \<open>
  What a handler does to the world outside its component state, in order: remote reads,
  uploads to object storage, inserted rows, and notifications
  (\<^verbatim>\<open>showNotification(message, kind)\<close>).
\<close>

record product_insert_row =
  customer_id :: string
  product_name :: string
  insert_price :: real
  start_date :: string
  end_date :: string
  photo_urls :: "string list"
  created_by :: "string option"

datatype effect =
    Select query
  | Upload string string string
  | Insert string product_insert_row
  | Notification string string

text \<open>How the body of a \<^verbatim>\<open>try\<close> block ended: at its end or at a \<^verbatim>\<open>return\<close>, or by
  throwing an error (its message).\<close>

datatype completion = Normal | Thrown string

section \<open>The state both report views share\<close>

record report_view =
  loading :: bool
  totalCount :: nat
  currentPage :: int

text \<open>The handlers of the two pagination buttons, \<^verbatim>\<open>setCurrentPage(p => p - 1)\<close> and
  \<^verbatim>\<open>setCurrentPage(p => p + 1)\<close>, and the \<^verbatim>\<open>disabled\<close> attribute of the first.\<close>

definition previous_page :: "'a report_view_scheme \<Rightarrow> 'a report_view_scheme" where
  "previous_page st = st\<lparr>currentPage := currentPage st - 1\<rparr>"

definition next_page :: "'a report_view_scheme \<Rightarrow> 'a report_view_scheme" where
  "next_page st = st\<lparr>currentPage := currentPage st + 1\<rparr>"




section \<open>ProductInsertReporting\<close>

definition ITEMS_PER_PAGE_inserts :: nat where
  "ITEMS_PER_PAGE_inserts = 6"

record insert_reporting = report_view +
  inserts :: "row list"
  r_startDate :: string
  r_endDate :: string
  selectedCustomerIds :: "string list"

definition initial_insert_reporting :: insert_reporting where
  "initial_insert_reporting =
     \<lparr>loading = True, totalCount = 0, currentPage = 1, inserts = [],
      r_startDate = [], r_endDate = [], selectedCustomerIds = []\<rparr>"

text \<open>The query \<^verbatim>\<open>fetchInserts\<close> composes from the filters and the page.\<close>

definition inserts_query :: "insert_reporting \<Rightarrow> query" where
  "inserts_query st =
     (let startIndex = (currentPage st - 1) * int ITEMS_PER_PAGE_inserts
      in \<lparr>q_from = ''product_inserts'',
          q_select = ''*, customer:customers(name)'',
          q_count = True,
          q_filters =
            (if r_startDate st \<noteq> [] then [F_gte ''end_date'' (r_startDate st)] else []) @
            (if r_endDate st \<noteq> [] then [F_lte ''start_date'' (r_endDate st)] else []) @
            (if selectedCustomerIds st \<noteq> []
             then [F_in ''customer_id'' (selectedCustomerIds st)] else []),
          q_order = Some (''created_at'', False),
          q_range = Some (startIndex, startIndex + int ITEMS_PER_PAGE_inserts - 1)\<rparr>)"

text \<open>The \<^verbatim>\<open>try\<close> block of \<^verbatim>\<open>fetchInserts\<close>: how it ended, the state it left and what
  it sent.\<close>

definition fetchInserts_try ::
  "(query \<Rightarrow> row response) \<Rightarrow> insert_reporting \<Rightarrow> completion \<times> insert_reporting \<times> effect list" where
  "fetchInserts_try backend st =
     (let q = inserts_query st; r = backend q
      in case error r of
           Some msg \<Rightarrow> (Thrown msg, st, [Select q])
         | None \<Rightarrow>
             (Normal, st\<lparr>inserts := data_or_empty r, totalCount := count_or_zero r\<rparr>, [Select q]))"

definition fetchInserts ::
  "AppPermission option \<Rightarrow> (query \<Rightarrow> row response) \<Rightarrow> insert_reporting \<Rightarrow> insert_reporting \<times> effect list" where
  "fetchInserts pagePermissions backend st =
     (if \<not> may_view pagePermissions then (st\<lparr>loading := False\<rparr>, [])
      else
        case fetchInserts_try backend (st\<lparr>loading := True\<rparr>) of
          (Normal, st1, es) \<Rightarrow> (st1\<lparr>loading := False\<rparr>, es)
        | (Thrown msg, st1, es) \<Rightarrow>
            (st1\<lparr>loading := False\<rparr>,
             es @ [Notification (''Failed to load reports: '' @ msg) ''error'']))"

text \<open>The \<^verbatim>\<open>onChange\<close> handlers of the two date inputs, the customer toggle and the
  reset button.\<close>

definition onChange_startDate :: "string \<Rightarrow> insert_reporting \<Rightarrow> insert_reporting" where
  "onChange_startDate v st = st\<lparr>r_startDate := v, currentPage := 1\<rparr>"

definition onChange_endDate :: "string \<Rightarrow> insert_reporting \<Rightarrow> insert_reporting" where
  "onChange_endDate v st = st\<lparr>r_endDate := v, currentPage := 1\<rparr>"

definition handleCustomerToggle :: "string \<Rightarrow> insert_reporting \<Rightarrow> insert_reporting" where
  "handleCustomerToggle i st =
     st\<lparr>selectedCustomerIds := toggle i (selectedCustomerIds st), currentPage := 1\<rparr>"

definition handleResetFilters_inserts :: "insert_reporting \<Rightarrow> insert_reporting" where
  "handleResetFilters_inserts st =
     st\<lparr>r_startDate := [], r_endDate := [], selectedCustomerIds := [], currentPage := 1\<rparr>"




section \<open>CompetitorPriceAnalysisReport\<close>

definition ITEMS_PER_PAGE_reports :: nat where
  "ITEMS_PER_PAGE_reports = 5"

record filters =
  f_startDate :: string
  f_endDate :: string
  f_customerId :: string
  productIds :: "string list"

definition initialFilters :: filters where
  "initialFilters = \<lparr>f_startDate = [], f_endDate = [], f_customerId = [], productIds = []\<rparr>"

record price_report = report_view +
  reports :: "row list"
  filters :: filters

definition initial_price_report :: price_report where
  "initial_price_report =
     \<lparr>loading = True, totalCount = 0, currentPage = 1, reports = [], filters = initialFilters\<rparr>"

text \<open>The three queries of \<^verbatim>\<open>fetchReports\<close>.\<close>

definition analysisIdsQuery :: "filters \<Rightarrow> query" where
  "analysisIdsQuery currentFilters =
     \<lparr>q_from = ''competitor_price_analysis'', q_select = ''id'', q_count = True,
      q_filters =
        (if f_startDate currentFilters \<noteq> []
         then [F_gte ''analysis_date'' (f_startDate currentFilters @ ''T00:00:00.000Z'')] else []) @
        (if f_endDate currentFilters \<noteq> []
         then [F_lte ''analysis_date'' (f_endDate currentFilters @ ''T23:59:59.999Z'')] else []) @
        (if f_customerId currentFilters \<noteq> []
         then [F_eq ''customer_id'' (f_customerId currentFilters)] else []),
      q_order = None, q_range = None\<rparr>"

definition items_query :: "filters \<Rightarrow> query" where
  "items_query currentFilters =
     \<lparr>q_from = ''competitor_price_analysis_items'', q_select = ''analysis_id'', q_count = False,
      q_filters = [F_in ''product_id'' (productIds currentFilters)],
      q_order = None, q_range = None\<rparr>"

definition detail_query :: "int \<Rightarrow> row list \<Rightarrow> query" where
  "detail_query page idData =
     (let startIndex = (page - 1) * int ITEMS_PER_PAGE_reports
      in \<lparr>q_from = ''competitor_price_analysis'',
          q_select = ''*, customer:customers(name), items:competitor_price_analysis_items(*, product:products(*))'',
          q_count = False,
          q_filters = [F_in ''id'' (map (\<lambda>i. field i ''id'') idData)],
          q_order = Some (''analysis_date'', False),
          q_range = Some (startIndex, startIndex + int ITEMS_PER_PAGE_reports - 1)\<rparr>)"

text \<open>The \<^verbatim>\<open>try\<close> block from the awaited id query on.\<close>

definition fetchReports_ids ::
  "(query \<Rightarrow> row response) \<Rightarrow> int \<Rightarrow> query \<Rightarrow> effect list \<Rightarrow> price_report \<Rightarrow>
     completion \<times> price_report \<times> effect list" where
  "fetchReports_ids backend page q es st =
     (let r = backend q
      in case error r of
           Some msg \<Rightarrow> (Thrown msg, st, es @ [Select q])
         | None \<Rightarrow>
             let st1 = st\<lparr>totalCount := count_or_zero r\<rparr>
             in if data_or_empty r = []
                then (Normal, st1\<lparr>reports := [], loading := False\<rparr>, es @ [Select q])
                else
                  let qd = detail_query page (data_or_empty r); rd = backend qd
                  in (case error rd of
                        Some msg \<Rightarrow> (Thrown msg, st1, es @ [Select q, Select qd])
                      | None \<Rightarrow>
                          (Normal, st1\<lparr>reports := data_or_empty rd\<rparr>,
                           es @ [Select q, Select qd])))"

definition fetchReports_try ::
  "(query \<Rightarrow> row response) \<Rightarrow> int \<Rightarrow> filters \<Rightarrow> price_report \<Rightarrow>
     completion \<times> price_report \<times> effect list" where
  "fetchReports_try backend page currentFilters st =
     (let q = analysisIdsQuery currentFilters
      in if productIds currentFilters \<noteq> []
         then
           let qi = items_query currentFilters; ri = backend qi
           in case error ri of
                Some msg \<Rightarrow> (Thrown msg, st, [Select qi])
              | None \<Rightarrow>
                  let matchingAnalysisIds = map (\<lambda>i. field i ''analysis_id'') (data_or_empty ri)
                  in fetchReports_ids backend page
                       (q\<lparr>q_filters := q_filters q @ [F_in ''id'' matchingAnalysisIds]\<rparr>)
                       [Select qi] st
         else fetchReports_ids backend page q [] st)"

definition fetchReports ::
  "AppPermission option \<Rightarrow> (query \<Rightarrow> row response) \<Rightarrow> int \<Rightarrow> filters \<Rightarrow> price_report \<Rightarrow>
     price_report \<times> effect list" where
  "fetchReports pagePermissions backend page currentFilters st =
     (if \<not> may_view pagePermissions then (st\<lparr>loading := False\<rparr>, [])
      else
        case fetchReports_try backend page currentFilters (st\<lparr>loading := True\<rparr>) of
          (Normal, st1, es) \<Rightarrow> (st1\<lparr>loading := False\<rparr>, es)
        | (Thrown msg, st1, es) \<Rightarrow>
            (st1\<lparr>loading := False\<rparr>,
             es @ [Notification (''Failed to load reports: '' @ msg) ''error'']))"

text \<open>\<^verbatim>\<open>handleFilterChange(field, value)\<close>: the field and its new value.\<close>

datatype filter_change =
    StartDate string
  | EndDate string
  | CustomerId string
  | ProductIds "string list"

fun set_filter :: "filter_change \<Rightarrow> filters \<Rightarrow> filters" where
  "set_filter (StartDate v) prev = prev\<lparr>f_startDate := v\<rparr>"
| "set_filter (EndDate v) prev = prev\<lparr>f_endDate := v\<rparr>"
| "set_filter (CustomerId v) prev = prev\<lparr>f_customerId := v\<rparr>"
| "set_filter (ProductIds v) prev = prev\<lparr>productIds := v\<rparr>"

definition handleFilterChange :: "filter_change \<Rightarrow> price_report \<Rightarrow> price_report" where
  "handleFilterChange fv st = st\<lparr>filters := set_filter fv (filters st), currentPage := 1\<rparr>"

definition handleProductFilterChange :: "string \<Rightarrow> price_report \<Rightarrow> price_report" where
  "handleProductFilterChange productId st =
     handleFilterChange (ProductIds (toggle productId (productIds (filters st)))) st"

definition handleResetFilters_reports :: "price_report \<Rightarrow> price_report" where
  "handleResetFilters_reports st = st\<lparr>filters := initialFilters, currentPage := 1\<rparr>"





section \<open>ProductInsert: saving the form\<close>

text \<open>
  What \<^verbatim>\<open>handleSave\<close> takes from outside the component: the identifier of the signed-in
  profile (\<^verbatim>\<open>profile?.id\<close>), the identifiers \<^verbatim>\<open>uuidv4()\<close> returns in the order of the
  calls, the time value of \<^verbatim>\<open>new Date(s)\<close> (\<open>None\<close> for an invalid date), and the
  answers of the backend: the error of the upload of a file to a path, the public URL of
  a path, the error of the insert of a row.
\<close>

record save_env =
  profile_id :: "string option"
  uuidv4 :: "nat \<Rightarrow> string"
  date_value :: "string \<Rightarrow> int option"
  upload_error :: "string \<Rightarrow> string \<Rightarrow> string option"
  publicUrl :: "string \<Rightarrow> string"
  insert_error :: "product_insert_row \<Rightarrow> string option"

text \<open>\<^verbatim>\<open>new Date(a) > new Date(b)\<close>: a comparison with an invalid date is false.\<close>

definition date_after :: "save_env \<Rightarrow> string \<Rightarrow> string \<Rightarrow> bool" where
  "date_after env a b =
     (case (date_value env a, date_value env b) of
        (Some x, Some y) \<Rightarrow> y < x
      | _ \<Rightarrow> False)"

definition filePath :: "save_env \<Rightarrow> nat \<Rightarrow> string" where
  "filePath env k =
     ''public/'' @ (case profile_id env of None \<Rightarrow> ''undefined'' | Some p \<Rightarrow> p) @
     ''/insert/'' @ uuidv4 env k"

text \<open>The paths of the files, one \<^verbatim>\<open>uuidv4()\<close> each, in the order of \<^verbatim>\<open>photoFiles\<close>.\<close>

definition upload_paths :: "save_env \<Rightarrow> string list \<Rightarrow> (string \<times> string) list" where
  "upload_paths env files = zip (map (filePath env) [0..<length files]) files"

text \<open>
  Whether an upload failed, and with which message. \<^verbatim>\<open>Promise.all\<close> rejects with the
  failure that arrives first; the order of arrival is not part of this model, which takes
  the first failing file in the order of \<^verbatim>\<open>photoFiles\<close>. With several failing uploads
  the two can differ in the message notified, in nothing else.
\<close>

fun first_upload_error :: "save_env \<Rightarrow> (string \<times> string) list \<Rightarrow> string option" where
  "first_upload_error env [] = None"
| "first_upload_error env ((path, file) # rest) =
     (case upload_error env path file of
        Some msg \<Rightarrow> Some (''Image upload failed: '' @ msg)
      | None \<Rightarrow> first_upload_error env rest)"

text \<open>
  The \<^verbatim>\<open>try\<close> block of \<^verbatim>\<open>handleSave\<close>. Every upload is started before any is
  awaited; the row is inserted only when all of them succeeded. After a successful insert
  the form is reset, and the reset of \<^verbatim>\<open>customerSearch\<close> runs the search effect.
\<close>

definition handleSave_try :: "save_env \<Rightarrow> product_insert \<Rightarrow> completion \<times> product_insert \<times> effect list" where
  "handleSave_try env st =
     (let ups = upload_paths env (photoFiles st);
          uploads = map (\<lambda>(path, file). Upload ''insert_photos'' path file) ups
      in case first_upload_error env ups of
           Some msg \<Rightarrow> (Thrown msg, st, uploads)
         | None \<Rightarrow>
             let photoUrls = map (\<lambda>(path, file). publicUrl env path) ups;
                 r = \<lparr>customer_id = customerId st, product_name = productName st,
                      insert_price = (case insertPrice st of None \<Rightarrow> 0 | Some x \<Rightarrow> x),
                      start_date = startDate st, end_date = endDate st,
                      photo_urls = photoUrls, created_by = profile_id env\<rparr>
             in (case insert_error env r of
                   Some msg \<Rightarrow> (Thrown msg, st, uploads @ [Insert ''product_inserts'' r])
                 | None \<Rightarrow>
                     (Normal,
                      (setCustomerSearch [] (st\<lparr>customerId := []\<rparr>))
                        \<lparr>productName := [], insertPrice := None, startDate := [],
                         endDate := [], photoFiles := []\<rparr>,
                      uploads @ [Insert ''product_inserts'' r,
                                 Notification ''productInsert.saveSuccess'' ''success''])))"

text \<open>\<^verbatim>\<open>!customerId || !productName || insertPrice === '' || !startDate || !endDate\<close>.\<close>

definition fields_missing :: "product_insert \<Rightarrow> bool" where
  "fields_missing st =
     (customerId st = [] \<or> productName st = [] \<or> insertPrice st = None \<or>
      startDate st = [] \<or> endDate st = [])"

text \<open>
  \<^verbatim>\<open>handleSave\<close>. A notification is recorded by the key of its translated text; for
  the save error, the key followed by the message of the error stands for
  \<^verbatim>\<open>t('productInsert.saveError').replace('{error}', error.message)\<close>, whose text
  depends on the translation table.
\<close>

definition handleSave ::
  "AppPermission option \<Rightarrow> save_env \<Rightarrow> product_insert \<Rightarrow> product_insert \<times> effect list" where
  "handleSave pagePermissions env st =
     (if \<not> may_create pagePermissions then (st, [])
      else if fields_missing st
      then (st, [Notification ''productInsert.validation.fieldsRequired'' ''error''])
      else if date_after env (startDate st) (endDate st)
      then (st, [Notification ''productDisplay.validation.dateError'' ''error''])
      else
        case handleSave_try env (st\<lparr>isSaving := True\<rparr>) of
          (Normal, st1, es) \<Rightarrow> (st1\<lparr>isSaving := False\<rparr>, es)
        | (Thrown msg, st1, es) \<Rightarrow>
            (st1\<lparr>isSaving := False\<rparr>,
             es @ [Notification (''productInsert.saveError: '' @ msg) ''error'']))"

text \<open>What a handler sent to the backend: the effects that are not notifications.\<close>

fun is_remote :: "effect \<Rightarrow> bool" where
  "is_remote (Notification m k) = False"
| "is_remote e = True"


section \<open>Reloading, and what the properties below are stated with\<close>

text \<open>The effects \<^verbatim>\<open>useEffect(() => { fetchReports(currentPage, filters); }, ..)\<close> and
  \<^verbatim>\<open>useEffect(() => { fetchInserts(); }, ..)\<close>: a load with the page and the filters
  of the state.\<close>

definition load_reports ::
  "AppPermission option \<Rightarrow> (query \<Rightarrow> row response) \<Rightarrow> price_report \<Rightarrow> price_report \<times> effect list" where
  "load_reports pagePermissions backend st =
     fetchReports pagePermissions backend (currentPage st) (filters st) st"

text \<open>The id query of \<^verbatim>\<open>fetchReports\<close> once the product facet has added
  \<^verbatim>\<open>.in('id', matchingAnalysisIds)\<close>.\<close>

definition ids_query_of :: "filters \<Rightarrow> string list \<Rightarrow> query" where
  "ids_query_of currentFilters matchingAnalysisIds =
     (analysisIdsQuery currentFilters)
       \<lparr>q_filters := q_filters (analysisIdsQuery currentFilters) @ [F_in ''id'' matchingAnalysisIds]\<rparr>"

text \<open>The lower and the upper bounds among the filters of a query, each with its column.\<close>

fun lower_bounds :: "filter list \<Rightarrow> (string \<times> string) list" where
  "lower_bounds [] = []"
| "lower_bounds (F_gte c v # fs) = (c, v) # lower_bounds fs"
| "lower_bounds (f # fs) = lower_bounds fs"

fun upper_bounds :: "filter list \<Rightarrow> (string \<times> string) list" where
  "upper_bounds [] = []"
| "upper_bounds (F_lte c v # fs) = (c, v) # upper_bounds fs"
| "upper_bounds (f # fs) = upper_bounds fs"

text \<open>The queries among the effects that ask for the count: the ones the facets of a
  report are applied to.\<close>

fun counted_selects :: "effect list \<Rightarrow> query list" where
  "counted_selects [] = []"
| "counted_selects (Select q # es) =
     (if q_count q then q # counted_selects es else counted_selects es)"
| "counted_selects (e # es) = counted_selects es"


subsection \<open>Concrete data\<close>

definition customer_abc :: Customer where
  "customer_abc = \<lparr>cust_id = ''1'', customer_code = ''K-001'', name = ''Abc Market''\<rparr>"

definition customer_bab :: Customer where
  "customer_bab = \<lparr>cust_id = ''2'', customer_code = ''K-002'', name = ''Bab Store''\<rparr>"

definition viewer :: "AppPermission option" where
  "viewer = Some \<lparr>can_view = True, can_create = True, can_edit = False, can_delete = False\<rparr>"

definition no_access :: "AppPermission option" where
  "no_access = Some \<lparr>can_view = False, can_create = False, can_edit = False, can_delete = False\<rparr>"

text \<open>A backend with one analysis and no items; no call fails, or the calls to the table
  of analyses fail.\<close>

definition one_analysis :: "string \<Rightarrow> row list" where
  "one_analysis t =
     (if t = ''competitor_price_analysis''
      then [[(''id'', ''a1''), (''analysis_date'', ''2024-03-05T10:00:00+00:00''),
             (''customer_id'', ''c1'')]]
      else [])"

definition all_up :: "query \<Rightarrow> string option" where
  "all_up q = None"

definition analysis_down :: "query \<Rightarrow> string option" where
  "analysis_down q =
     (if q_from q = ''competitor_price_analysis'' then Some ''Failed to fetch'' else None)"

text \<open>The report view after its first load from that backend, and after the user then
  picked product \<open>p1\<close>.\<close>

definition loaded_report :: price_report where
  "loaded_report = fst (load_reports viewer (run_query one_analysis) initial_price_report)"

definition product_chosen :: price_report where
  "product_chosen = handleProductFilterChange ''p1'' loaded_report"

text \<open>A backend with twelve analyses.\<close>

definition analysis_row :: "string \<Rightarrow> row" where
  "analysis_row i = [(''id'', i), (''analysis_date'', ''2024-02-'' @ i @ ''T09:00:00+00:00'')]"

definition twelve_analyses :: "string \<Rightarrow> row list" where
  "twelve_analyses t =
     (if t = ''competitor_price_analysis''
      then map analysis_row [''01'', ''02'', ''03'', ''04'', ''05'', ''06'',
                             ''07'', ''08'', ''09'', ''10'', ''11'', ''12'']
      else [])"

text \<open>A filled form with one photo, and a backend on which the upload fails.\<close>

definition filled_form :: product_insert where
  "filled_form =
     initial_product_insert
       \<lparr>customerId := ''1'', customerSearch := ''Abc Market'', productName := ''Tea'',
        insertPrice := Some 2, startDate := ''2024-01-01'', endDate := ''2024-01-31'',
        photoFiles := [''shelf.jpg'']\<rparr>"

definition day_number :: "string \<Rightarrow> int option" where
  "day_number s =
     (if s = ''2024-01-01'' then Some 19723 else if s = ''2024-01-31'' then Some 19753 else None)"

definition storage_down :: save_env where
  "storage_down =
     \<lparr>profile_id = Some ''u1'', uuidv4 = (\<lambda>k. ''0000''), date_value = day_number,
      upload_error = (\<lambda>path file. Some ''Bucket not found''),
      publicUrl = (\<lambda>path. ''https://files.example/'' @ path),
      insert_error = (\<lambda>r. None)\<rparr>"

section \<open>Properties of the customer search\<close>

lemma run_typed_a:
  "search_run id [Input ''a''] =
     initial_product_insert
       \<lparr>customerSearch := ''a'', isCustomerDropdownOpen := True,
        debounceTimeout := Some (300, ''a'')\<rparr>"
  by (simp add: search_run_def initial_product_insert_def search_effect_def onChange_search_def
      setCustomerSearch_def quiet_period_def)

lemma run_cleared_in_flight:
  "search_run id [Input ''a'', Elapse 300, Input []] =
     initial_product_insert
       \<lparr>isCustomerDropdownOpen := True, now := 300,
        issued := [customer_search_query ''a''], awaiting := [0]\<rparr>"
  by (simp add: search_run_def initial_product_insert_def search_effect_def onChange_search_def
      setCustomerSearch_def elapse_def timer_fires_def quiet_period_def)

lemma run_two_in_flight:
  "search_run id [Input ''a'', Elapse 300, Input ''ab'', Elapse 300, Completes 1 (ok [customer_bab])] =
     initial_product_insert
       \<lparr>customerSearch := ''ab'', isCustomerDropdownOpen := True, now := 600,
        filteredCustomers := [customer_bab],
        issued := [customer_search_query ''a'', customer_search_query ''ab''],
        awaiting := [0]\<rparr>"
  by (simp add: search_run_def initial_product_insert_def search_effect_def onChange_search_def
      setCustomerSearch_def elapse_def timer_fires_def quiet_period_def completes_def ok_def
      data_or_empty_def)

text \<open>
  C1, as stated: a resolution that was superseded (a later one was scheduled or sent, or the
  input was cleared) and completes last is not applied to the displayed candidates. The
  code has no such check. First run: \<open>a\<close> is typed, its request is sent after the quiet
  period, the input is cleared (the list is emptied), and then the response arrives: the
  candidate is displayed although the input is empty. Second run: \<open>a\<close> is typed and sent,
  \<open>ab\<close> is typed and sent, the response for \<open>ab\<close> arrives first and the one for \<open>a\<close>
  last: the result of \<open>a\<close> replaces that of \<open>ab\<close>.
\<close>

theorem stale_resolution_applied:
  "superseded (search_run id [Input ''a'', Elapse 300, Input []]) 0 \<and>
   customerSearch (search_run id [Input ''a'', Elapse 300, Input []]) = [] \<and>
   filteredCustomers (search_run id [Input ''a'', Elapse 300, Input []]) = [] \<and>
   filteredCustomers
     (completes 0 (ok [customer_abc]) (search_run id [Input ''a'', Elapse 300, Input []])) =
     [customer_abc] \<and>
   superseded
     (search_run id
        [Input ''a'', Elapse 300, Input ''ab'', Elapse 300, Completes 1 (ok [customer_bab])]) 0 \<and>
   filteredCustomers
     (search_run id
        [Input ''a'', Elapse 300, Input ''ab'', Elapse 300, Completes 1 (ok [customer_bab])]) =
     [customer_bab] \<and>
   filteredCustomers
     (completes 0 (ok [customer_abc, customer_bab])
        (search_run id
           [Input ''a'', Elapse 300, Input ''ab'', Elapse 300, Completes 1 (ok [customer_bab])])) =
     [customer_abc, customer_bab]"
  unfolding run_cleared_in_flight run_two_in_flight
  by (simp add: superseded_def completes_def initial_product_insert_def ok_def data_or_empty_def)

text \<open>
  C1, amended: a resolution that still waits in its quiet period when the input changes is
  cancelled and never sent (after the change, whatever time passes, the requests sent are
  those sent before, followed at most by the one for the new input); a resolution that was
  sent is never
  discarded: when its response arrives without an error, its result set becomes the
  displayed candidate list, in every state.
\<close>

theorem sent_resolution_always_applied:
  "(v \<noteq> customerSearch st \<longrightarrow>
      set (issued (elapse lc d (onChange_search v st))) \<subseteq>
        set (issued st) \<union> {customer_search_query (lc v)}) \<and>
   (k \<in> set (awaiting st') \<and> error r = None \<longrightarrow>
      filteredCustomers (completes k r st') = data_or_empty r) \<and>
   (v \<noteq> customerSearch st \<longrightarrow>
      issued (elapse lc d (onChange_search v st)) = issued st \<or>
      issued (elapse lc d (onChange_search v st)) = issued st @ [customer_search_query (lc v)])"
  by (auto simp add: onChange_search_def setCustomerSearch_def search_effect_def elapse_def
      timer_fires_def Let_def completes_def)

theorem sent_resolution_always_applied_witness:
  "''b'' \<noteq> customerSearch (search_run id [Input ''a'']) \<and>
   set (issued (elapse id 300 (onChange_search ''b'' (search_run id [Input ''a'']))))
     \<subseteq> set (issued (search_run id [Input ''a''])) \<union> {customer_search_query (id ''b'')} \<and>
   0 \<in> set (awaiting (search_run id [Input ''a'', Elapse 300, Input []])) \<and>
   error (ok [customer_abc]) = None \<and>
   filteredCustomers
     (completes 0 (ok [customer_abc]) (search_run id [Input ''a'', Elapse 300, Input []])) =
     data_or_empty (ok [customer_abc]) \<and>
   (issued (elapse id 300 (onChange_search ''b'' (search_run id [Input ''a'']))) =
      issued (search_run id [Input ''a'']) \<or>
    issued (elapse id 300 (onChange_search ''b'' (search_run id [Input ''a'']))) =
      issued (search_run id [Input ''a'']) @ [customer_search_query (id ''b'')])"
proof -
  have h1: "''b'' \<noteq> customerSearch (search_run id [Input ''a''])"
    by (simp add: run_typed_a)
  have h2: "0 \<in> set (awaiting (search_run id [Input ''a'', Elapse 300, Input []])) \<and>
            error (ok [customer_abc]) = None"
    by (simp add: run_cleared_in_flight ok_def)
  from sent_resolution_always_applied
         [of "''b''" "search_run id [Input ''a'']" id 300 0
             "search_run id [Input ''a'', Elapse 300, Input []]" "ok [customer_abc]"]
       h1 h2
  show ?thesis by blast
qed

text \<open>
  C2: on an input change the waiting timer is replaced. For a non-empty new input one
  resolution carrying it waits for the quiet period: no request is sent by the change or
  while less than 300 ms pass, and once 300 ms have passed with no further change exactly
  one request, built from the new input, has been sent. For an empty new input the
  candidate list is cleared at once, no timer waits, and no request is sent however much
  time passes.
\<close>

theorem input_change_debounced:
  "v \<noteq> customerSearch st \<Longrightarrow>
   (v \<noteq> [] \<longrightarrow>
      debounceTimeout (onChange_search v st) = Some (now st + 300, v) \<and>
      issued (onChange_search v st) = issued st \<and>
      (\<forall>d. d < 300 \<longrightarrow> issued (elapse lc d (onChange_search v st)) = issued st) \<and>
      (\<forall>d. 300 \<le> d \<longrightarrow>
         issued (elapse lc d (onChange_search v st)) =
           issued st @ [customer_search_query (lc v)])) \<and>
   (v = [] \<longrightarrow>
      filteredCustomers (onChange_search v st) = [] \<and>
      debounceTimeout (onChange_search v st) = None \<and>
      issued (onChange_search v st) = issued st \<and>
      (\<forall>d. issued (elapse lc d (onChange_search v st)) = issued st))"
  by (auto simp add: onChange_search_def setCustomerSearch_def search_effect_def elapse_def
      timer_fires_def Let_def quiet_period_def)

theorem input_change_debounced_witness:
  "''ab'' \<noteq> customerSearch (search_run id [Input ''a'']) \<and>
   debounceTimeout (onChange_search ''ab'' (search_run id [Input ''a''])) = Some (300, ''ab'') \<and>
   issued (elapse id 299 (onChange_search ''ab'' (search_run id [Input ''a'']))) = [] \<and>
   issued (elapse id 300 (onChange_search ''ab'' (search_run id [Input ''a'']))) =
     [customer_search_query ''ab''] \<and>
   [] \<noteq> customerSearch (search_run id [Input ''a'']) \<and>
   filteredCustomers (onChange_search [] (search_run id [Input ''a''])) = [] \<and>
   issued (elapse id 1000 (onChange_search [] (search_run id [Input ''a'']))) = []"
proof -
  have h1: "''ab'' \<noteq> customerSearch (search_run id [Input ''a''])"
    by (simp add: run_typed_a)
  have h2: "[] \<noteq> customerSearch (search_run id [Input ''a''])"
    by (simp add: run_typed_a)
  have facts: "now (search_run id [Input ''a'']) = 0" "issued (search_run id [Input ''a'']) = []"
    by (simp_all add: run_typed_a initial_product_insert_def)
  from input_change_debounced [OF h1, of id] input_change_debounced [OF h2, of id] h1 h2 facts
  show ?thesis by simp
qed

text \<open>
  C6: when a resolution fails (the response carries an error), the displayed candidate
  list stays as it was, and the failure is written to the console.
\<close>

theorem failed_resolution_keeps_candidates:
  "error r = Some msg \<Longrightarrow>
   filteredCustomers (completes k r st) = filteredCustomers st \<and>
   (k \<in> set (awaiting st) \<longrightarrow>
      console (completes k r st) = console st @ [''Customer search error: '' @ msg])"
  by (simp add: completes_def Let_def)

theorem failed_resolution_keeps_candidates_witness:
  "error (failed ''timeout'' :: Customer response) = Some ''timeout'' \<and>
   0 \<in> set (awaiting
     (search_run id [Input ''a'', Elapse 300, Input ''ab'', Elapse 300, Completes 1 (ok [customer_bab])])) \<and>
   filteredCustomers
     (completes 0 (failed ''timeout'')
        (search_run id
           [Input ''a'', Elapse 300, Input ''ab'', Elapse 300, Completes 1 (ok [customer_bab])])) =
     [customer_bab] \<and>
   console
     (completes 0 (failed ''timeout'')
        (search_run id
           [Input ''a'', Elapse 300, Input ''ab'', Elapse 300, Completes 1 (ok [customer_bab])])) =
     [''Customer search error: timeout'']"
proof -
  have h: "error (failed ''timeout'' :: Customer response) = Some ''timeout''"
    by (simp add: failed_def)
  have facts:
    "0 \<in> set (awaiting (search_run id
        [Input ''a'', Elapse 300, Input ''ab'', Elapse 300, Completes 1 (ok [customer_bab])]))"
    "filteredCustomers (search_run id
        [Input ''a'', Elapse 300, Input ''ab'', Elapse 300, Completes 1 (ok [customer_bab])]) =
       [customer_bab]"
    "console (search_run id
        [Input ''a'', Elapse 300, Input ''ab'', Elapse 300, Completes 1 (ok [customer_bab])]) = []"
    unfolding run_two_in_flight by (simp_all add: initial_product_insert_def)
  from failed_resolution_keeps_candidates [OF h, of 0
         "search_run id
            [Input ''a'', Elapse 300, Input ''ab'', Elapse 300, Completes 1 (ok [customer_bab])]"]
       h facts
  show ?thesis by simp
qed

section \<open>Properties of the report views\<close>

subsection \<open>Facets and the page cursor\<close>

text \<open>
  C10: toggling the same identifier twice gives back a set equal to the one before, for
  every identifier, the empty one of the placeholder option included: one toggle makes
  the identifier a member exactly when it was none, and changes the membership of no
  other identifier. Both views toggle this way.
\<close>

theorem toggle_twice_same_set:
  "set (toggle i (toggle i S)) = set S \<and>
   (i \<in> set (toggle i S)) = (i \<notin> set S) \<and>
   set (toggle i S) - {i} = set S - {i} \<and>
   selectedCustomerIds (handleCustomerToggle i st) = toggle i (selectedCustomerIds st) \<and>
   set (selectedCustomerIds (handleCustomerToggle i (handleCustomerToggle i st))) =
     set (selectedCustomerIds st) \<and>
   productIds (filters (handleProductFilterChange i pr)) = toggle i (productIds (filters pr)) \<and>
   set (productIds (filters (handleProductFilterChange i (handleProductFilterChange i pr)))) =
     set (productIds (filters pr)) \<and>
   set (productIds (filters (handleProductFilterChange [] (handleProductFilterChange [] pr)))) =
     set (productIds (filters pr)) \<and>
   [] \<in> set (productIds (filters (handleProductFilterChange [] initial_price_report)))"
  by (auto simp: toggle_def handleCustomerToggle_def handleProductFilterChange_def
      handleFilterChange_def initial_price_report_def initialFilters_def)

text \<open>
  C5: every handler that changes a facet (start date, end date, customer selection,
  customer toggle, product toggle, reset) sets the page to 1; the previous and next
  handlers leave every facet as it was.
\<close>

theorem facet_change_resets_page:
  "currentPage (onChange_startDate v st) = 1 \<and>
   currentPage (onChange_endDate v st) = 1 \<and>
   currentPage (handleCustomerToggle i st) = 1 \<and>
   currentPage (handleResetFilters_inserts st) = 1 \<and>
   currentPage (handleFilterChange fv pr) = 1 \<and>
   currentPage (handleProductFilterChange i pr) = 1 \<and>
   currentPage (handleResetFilters_reports pr) = 1 \<and>
   r_startDate (previous_page st) = r_startDate st \<and>
   r_endDate (previous_page st) = r_endDate st \<and>
   selectedCustomerIds (previous_page st) = selectedCustomerIds st \<and>
   r_startDate (next_page st) = r_startDate st \<and>
   r_endDate (next_page st) = r_endDate st \<and>
   selectedCustomerIds (next_page st) = selectedCustomerIds st \<and>
   filters (previous_page pr) = filters pr \<and>
   filters (next_page pr) = filters pr"
  by (simp add: onChange_startDate_def onChange_endDate_def handleCustomerToggle_def
      handleResetFilters_inserts_def handleFilterChange_def handleProductFilterChange_def
      handleResetFilters_reports_def previous_page_def next_page_def)

subsection \<open>Permissions and the in-flight flag\<close>

text \<open>
  C9: when the permission record is absent or its \<open>can_view\<close> is false, both fetch
  functions send nothing (no query, no notification) and leave the state as it was but
  for the cleared loading flag; when \<open>can_create\<close> is false or the record is absent,
  \<open>handleSave\<close> changes nothing and sends no upload and no insert.
\<close>

theorem no_permission_no_request:
  "(\<not> may_view pp \<longrightarrow>
      fetchInserts pp backend st = (st\<lparr>loading := False\<rparr>, []) \<and>
      fetchReports pp backend page fs pr = (pr\<lparr>loading := False\<rparr>, [])) \<and>
   (\<not> may_create pp \<longrightarrow> handleSave pp env form = (form, [])) \<and>
   \<not> may_view None \<and> \<not> may_create None \<and>
   (may_view (Some p) = can_view p) \<and> (may_create (Some p) = can_create p)"
  by (simp add: fetchInserts_def fetchReports_def handleSave_def may_view_def may_create_def)

theorem no_permission_no_request_witness:
  "\<not> may_view no_access \<and>
   fetchInserts no_access (run_query twelve_analyses) initial_insert_reporting =
     (initial_insert_reporting\<lparr>loading := False\<rparr>, []) \<and>
   fetchReports no_access (run_query twelve_analyses) 1 initialFilters initial_price_report =
     (initial_price_report\<lparr>loading := False\<rparr>, []) \<and>
   \<not> may_create None \<and>
   handleSave None storage_down filled_form = (filled_form, [])"
proof -
  have h1: "\<not> may_view no_access"
    by (simp add: no_access_def may_view_def)
  have h2: "\<not> may_create None"
    by (simp add: may_create_def)
  from no_permission_no_request
         [of no_access "run_query twelve_analyses" initial_insert_reporting 1 initialFilters
             initial_price_report storage_down filled_form]
       no_permission_no_request
         [of None "run_query twelve_analyses" initial_insert_reporting 1 initialFilters
             initial_price_report storage_down filled_form]
       h1 h2
  show ?thesis by blast
qed

text \<open>
  C8: whatever the backend answers to any of the calls (an error included) and whatever
  the permission, \<open>fetchInserts\<close> and \<open>fetchReports\<close> end with \<open>loading\<close> cleared; once
  \<open>handleSave\<close> has passed its guards and set \<open>isSaving\<close>, it ends with \<open>isSaving\<close>
  cleared whatever the uploads and the insert answer, and when a guard returns early the
  flag is left as it was, so a save started with the flag clear never ends with it set.
\<close>

theorem in_flight_flag_cleared:
  "\<not> loading (fst (fetchInserts pp backend st)) \<and>
   \<not> loading (fst (fetchReports pp backend page fs pr)) \<and>
   (may_create pp' \<and> \<not> fields_missing form \<and> \<not> date_after env (startDate form) (endDate form) \<longrightarrow>
      \<not> isSaving (fst (handleSave pp' env form))) \<and>
   (\<not> isSaving form' \<longrightarrow> \<not> isSaving (fst (handleSave pp'' env' form')))"
  by (auto simp: fetchInserts_def fetchReports_def handleSave_def
      split: prod.splits completion.splits)

theorem in_flight_flag_cleared_witness:
  "may_create viewer \<and> \<not> fields_missing filled_form \<and>
   \<not> date_after storage_down (startDate filled_form) (endDate filled_form) \<and>
   \<not> isSaving (fst (handleSave viewer storage_down filled_form)) \<and>
   snd (handleSave viewer storage_down filled_form) =
     [Upload ''insert_photos'' ''public/u1/insert/0000'' ''shelf.jpg'',
      Notification ''productInsert.saveError: Image upload failed: Bucket not found'' ''error''] \<and>
   \<not> isSaving filled_form"
proof -
  have h: "may_create viewer \<and> \<not> fields_missing filled_form \<and>
           \<not> date_after storage_down (startDate filled_form) (endDate filled_form)"
    by (simp add: viewer_def may_create_def fields_missing_def filled_form_def
        initial_product_insert_def date_after_def storage_down_def day_number_def)
  have run: "snd (handleSave viewer storage_down filled_form) =
     [Upload ''insert_photos'' ''public/u1/insert/0000'' ''shelf.jpg'',
      Notification ''productInsert.saveError: Image upload failed: Bucket not found'' ''error'']"
    using h
    by (simp add: handleSave_def handleSave_try_def upload_paths_def filePath_def
        filled_form_def initial_product_insert_def storage_down_def)
  have idle: "\<not> isSaving filled_form"
    by (simp add: filled_form_def initial_product_insert_def)
  from in_flight_flag_cleared
         [of no_access "run_query twelve_analyses" initial_insert_reporting 1 initialFilters
             initial_price_report viewer filled_form storage_down filled_form viewer storage_down]
       h run idle
  show ?thesis by blast
qed

subsection \<open>The date-range facet\<close>

lemma lower_bounds_append: "lower_bounds (xs @ ys) = lower_bounds xs @ lower_bounds ys"
  by (induction xs rule: lower_bounds.induct) simp_all

lemma upper_bounds_append: "upper_bounds (xs @ ys) = upper_bounds xs @ upper_bounds ys"
  by (induction xs rule: upper_bounds.induct) simp_all

lemma counted_selects_append:
  "counted_selects (xs @ ys) = counted_selects xs @ counted_selects ys"
  by (induction xs rule: counted_selects.induct) simp_all

lemma fetchReports_ids_effects:
  "snd (snd (fetchReports_ids be page q es st)) = es @ [Select q] \<or>
   snd (snd (fetchReports_ids be page q es st)) =
     es @ [Select q, Select (detail_query page (data_or_empty (be q)))]"
  by (simp add: fetchReports_ids_def Let_def split: option.splits)

lemma detail_query_not_counted: "\<not> q_count (detail_query page idData)"
  by (simp add: detail_query_def Let_def)

lemma counted_selects_ids:
  assumes "q_count q"
  shows "counted_selects (snd (snd (fetchReports_ids be page q es st))) = counted_selects es @ [q]"
  using fetchReports_ids_effects [of be page q es st] assms
  by (auto simp: counted_selects_append detail_query_not_counted)

lemma counted_selects_try:
  "counted_selects (snd (snd (fetchReports_try be page fs st))) = [] \<or>
   counted_selects (snd (snd (fetchReports_try be page fs st))) = [analysisIdsQuery fs] \<or>
   (\<exists>ids. counted_selects (snd (snd (fetchReports_try be page fs st))) = [ids_query_of fs ids])"
proof (cases "productIds fs = []")
  case True
  have "q_count (analysisIdsQuery fs)"
    by (simp add: analysisIdsQuery_def)
  then have "counted_selects (snd (snd (fetchReports_ids be page (analysisIdsQuery fs) [] st))) =
      [analysisIdsQuery fs]"
    by (simp add: counted_selects_ids)
  with True show ?thesis
    by (simp add: fetchReports_try_def Let_def)
next
  case False
  show ?thesis
  proof (cases "error (be (items_query fs))")
    case None
    let ?ids = "map (\<lambda>i. field i ''analysis_id'') (data_or_empty (be (items_query fs)))"
    have "q_count (ids_query_of fs ?ids)"
      by (simp add: ids_query_of_def analysisIdsQuery_def)
    moreover have "\<not> q_count (items_query fs)"
      by (simp add: items_query_def)
    ultimately have "counted_selects (snd (snd (fetchReports_ids be page (ids_query_of fs ?ids)
        [Select (items_query fs)] st))) = [ids_query_of fs ?ids]"
      by (simp add: counted_selects_ids)
    moreover have "fetchReports_try be page fs st =
        fetchReports_ids be page (ids_query_of fs ?ids) [Select (items_query fs)] st"
      using False None by (simp add: fetchReports_try_def Let_def ids_query_of_def)
    ultimately show ?thesis by auto
  next
    case (Some msg)
    moreover have "\<not> q_count (items_query fs)"
      by (simp add: items_query_def)
    ultimately show ?thesis
      using False by (simp add: fetchReports_try_def Let_def)
  qed
qed

lemma counted_selects_fetchReports:
  "counted_selects (snd (fetchReports pp be page fs st)) = [] \<or>
   counted_selects (snd (fetchReports pp be page fs st)) = [analysisIdsQuery fs] \<or>
   (\<exists>ids. counted_selects (snd (fetchReports pp be page fs st)) = [ids_query_of fs ids])"
proof (cases "may_view pp")
  case False
  then show ?thesis by (simp add: fetchReports_def)
next
  case True
  obtain c st1 es where t: "fetchReports_try be page fs (st\<lparr>loading := True\<rparr>) = (c, st1, es)"
    by (cases "fetchReports_try be page fs (st\<lparr>loading := True\<rparr>)")
  have "counted_selects (snd (fetchReports pp be page fs st)) = counted_selects es"
    using True t by (cases c) (simp_all add: fetchReports_def counted_selects_append)
  with counted_selects_try [of be page fs "st\<lparr>loading := True\<rparr>"] t show ?thesis
    by simp
qed

lemma counted_selects_fetchReports_plain:
  assumes "may_view pp" and "productIds fs = []"
  shows "counted_selects (snd (fetchReports pp be page fs st)) = [analysisIdsQuery fs]"
proof -
  obtain c st1 es where t: "fetchReports_try be page fs (st\<lparr>loading := True\<rparr>) = (c, st1, es)"
    by (cases "fetchReports_try be page fs (st\<lparr>loading := True\<rparr>)")
  have "q_count (analysisIdsQuery fs)"
    by (simp add: analysisIdsQuery_def)
  then have "counted_selects
      (snd (snd (fetchReports_ids be page (analysisIdsQuery fs) [] (st\<lparr>loading := True\<rparr>)))) =
      [analysisIdsQuery fs]"
    by (simp add: counted_selects_ids)
  with assms(2) t have "counted_selects es = [analysisIdsQuery fs]"
    by (simp add: fetchReports_try_def Let_def)
  with assms(1) t show ?thesis
    by (cases c) (simp_all add: fetchReports_def counted_selects_append)
qed

lemma counted_selects_fetchInserts:
  "counted_selects (snd (fetchInserts pp be st)) = [] \<or>
   counted_selects (snd (fetchInserts pp be st)) = [inserts_query st]"
proof (cases "may_view pp")
  case False
  then show ?thesis by (simp add: fetchInserts_def)
next
  case True
  have q: "inserts_query (st\<lparr>loading := True\<rparr>) = inserts_query st"
    by (simp add: inserts_query_def)
  have "q_count (inserts_query st)"
    by (simp add: inserts_query_def Let_def)
  then show ?thesis
    using True q
    by (cases "error (be (inserts_query st))")
       (simp_all add: fetchInserts_def fetchInserts_try_def Let_def counted_selects_append)
qed

text \<open>
  C7: with only the start date \<open>d\<close> of the date range set, the query of the insert report
  has the single lower bound \<open>end_date >= d\<close> (the date itself, that is the start of
  that day) and no upper bound, and the id query of the price report, with or without the
  product facet, has the single lower bound \<open>analysis_date >= dT00:00:00.000Z\<close> and no
  upper bound; so has every counting query the two loads send. For \<open>d = 2024-01-01\<close> the
  bounds are \<open>2024-01-01\<close> and \<open>2024-01-01T00:00:00.000Z\<close>.
\<close>

theorem start_date_only_lower_bound:
  assumes "d \<noteq> []" "r_startDate st = d" "r_endDate st = []" "f_startDate fs = d" "f_endDate fs = []"
  shows "lower_bounds (q_filters (inserts_query st)) = [(''end_date'', d)] \<and>
         upper_bounds (q_filters (inserts_query st)) = [] \<and>
         lower_bounds (q_filters (analysisIdsQuery fs)) =
           [(''analysis_date'', d @ ''T00:00:00.000Z'')] \<and>
         upper_bounds (q_filters (analysisIdsQuery fs)) = [] \<and>
         (\<forall>q \<in> set (counted_selects (snd (fetchInserts pp be st))).
             lower_bounds (q_filters q) = [(''end_date'', d)] \<and>
             upper_bounds (q_filters q) = []) \<and>
         (\<forall>q \<in> set (counted_selects (snd (fetchReports pp be page fs pr))).
             lower_bounds (q_filters q) = [(''analysis_date'', d @ ''T00:00:00.000Z'')] \<and>
             upper_bounds (q_filters q) = [])"
proof -
  have ins: "lower_bounds (q_filters (inserts_query s)) = [(''end_date'', d)] \<and>
             upper_bounds (q_filters (inserts_query s)) = []"
    if "r_startDate s = d" "r_endDate s = []" for s
    using assms(1) that
    by (simp add: inserts_query_def Let_def lower_bounds_append upper_bounds_append)
  have ana: "lower_bounds (q_filters (analysisIdsQuery fs)) =
               [(''analysis_date'', d @ ''T00:00:00.000Z'')] \<and>
             upper_bounds (q_filters (analysisIdsQuery fs)) = []"
    using assms by (simp add: analysisIdsQuery_def lower_bounds_append upper_bounds_append)
  then have ana_ids: "lower_bounds (q_filters (ids_query_of fs ids)) =
               [(''analysis_date'', d @ ''T00:00:00.000Z'')] \<and>
             upper_bounds (q_filters (ids_query_of fs ids)) = []" for ids
    by (simp add: ids_query_of_def lower_bounds_append upper_bounds_append)
  have sent_ins: "\<forall>q \<in> set (counted_selects (snd (fetchInserts pp be st))).
             lower_bounds (q_filters q) = [(''end_date'', d)] \<and> upper_bounds (q_filters q) = []"
    using counted_selects_fetchInserts [of pp be st] ins [of st] assms(2,3) by auto
  have sent_ana: "\<forall>q \<in> set (counted_selects (snd (fetchReports pp be page fs pr))).
             lower_bounds (q_filters q) = [(''analysis_date'', d @ ''T00:00:00.000Z'')] \<and>
             upper_bounds (q_filters q) = []"
    using counted_selects_fetchReports [of pp be page fs pr] ana ana_ids by auto
  from ins [of st] assms(2,3) ana sent_ins sent_ana show ?thesis by blast
qed

theorem start_date_only_lower_bound_witness:
  "''2024-01-01'' \<noteq> [] \<and>
   r_startDate (onChange_startDate ''2024-01-01'' initial_insert_reporting) = ''2024-01-01'' \<and>
   r_endDate (onChange_startDate ''2024-01-01'' initial_insert_reporting) = [] \<and>
   f_startDate (set_filter (StartDate ''2024-01-01'') initialFilters) = ''2024-01-01'' \<and>
   f_endDate (set_filter (StartDate ''2024-01-01'') initialFilters) = [] \<and>
   lower_bounds (q_filters (inserts_query (onChange_startDate ''2024-01-01'' initial_insert_reporting))) =
     [(''end_date'', ''2024-01-01'')] \<and>
   upper_bounds (q_filters (inserts_query (onChange_startDate ''2024-01-01'' initial_insert_reporting))) = [] \<and>
   lower_bounds (q_filters (analysisIdsQuery (set_filter (StartDate ''2024-01-01'') initialFilters))) =
     [(''analysis_date'', ''2024-01-01T00:00:00.000Z'')] \<and>
   upper_bounds (q_filters (analysisIdsQuery (set_filter (StartDate ''2024-01-01'') initialFilters))) = [] \<and>
   counted_selects (snd (fetchInserts viewer (run_query twelve_analyses)
       (onChange_startDate ''2024-01-01'' initial_insert_reporting))) =
     [inserts_query (onChange_startDate ''2024-01-01'' initial_insert_reporting)] \<and>
   counted_selects (snd (fetchReports viewer (run_query twelve_analyses) 1
       (set_filter (StartDate ''2024-01-01'') initialFilters) initial_price_report)) =
     [analysisIdsQuery (set_filter (StartDate ''2024-01-01'') initialFilters)]"
proof -
  have h: "''2024-01-01'' \<noteq> []"
     "r_startDate (onChange_startDate ''2024-01-01'' initial_insert_reporting) = ''2024-01-01''"
     "r_endDate (onChange_startDate ''2024-01-01'' initial_insert_reporting) = []"
     "f_startDate (set_filter (StartDate ''2024-01-01'') initialFilters) = ''2024-01-01''"
     "f_endDate (set_filter (StartDate ''2024-01-01'') initialFilters) = []"
    by (simp_all add: onChange_startDate_def initial_insert_reporting_def initialFilters_def)
  have sent: "counted_selects (snd (fetchInserts viewer (run_query twelve_analyses)
       (onChange_startDate ''2024-01-01'' initial_insert_reporting))) =
     [inserts_query (onChange_startDate ''2024-01-01'' initial_insert_reporting)]"
    by (simp add: fetchInserts_def fetchInserts_try_def viewer_def may_view_def Let_def
        inserts_query_def run_query_def twelve_analyses_def matching_def ordered_def
        ITEMS_PER_PAGE_inserts_def onChange_startDate_def initial_insert_reporting_def)
  have sent': "counted_selects (snd (fetchReports viewer (run_query twelve_analyses) 1
       (set_filter (StartDate ''2024-01-01'') initialFilters) initial_price_report)) =
     [analysisIdsQuery (set_filter (StartDate ''2024-01-01'') initialFilters)]"
    by (rule counted_selects_fetchReports_plain)
       (simp_all add: viewer_def may_view_def initialFilters_def)
  from start_date_only_lower_bound [OF h, of viewer "run_query twelve_analyses" 1 initial_price_report]
       h sent sent'
  show ?thesis by simp
qed

subsection \<open>The two-stage load\<close>

lemma matching_in_empty: "matching rows (fs @ [F_in c []]) = []"
  by (simp add: matching_def split: option.splits)

lemma ordered_Nil: "ordered ord [] = []"
  by (simp add: ordered_def split: option.splits prod.splits)

lemma length_ordered: "length (ordered ord rows) = length rows"
  by (simp add: ordered_def split: option.splits prod.splits)

lemma run_query_in_empty:
  "q_range q = None \<Longrightarrow> q_count q \<Longrightarrow>
   run_query db (q\<lparr>q_filters := fs @ [F_in c []]\<rparr>) =
     \<lparr>data = Some [], error = None, count = Some 0\<rparr>"
  by (simp add: run_query_def matching_in_empty ordered_Nil)

lemma loaded_report_eq:
  "loaded_report =
     \<lparr>loading = False, totalCount = 1, currentPage = 1,
      reports = [[(''id'', ''a1''), (''analysis_date'', ''2024-03-05T10:00:00+00:00''),
                  (''customer_id'', ''c1'')]],
      filters = initialFilters\<rparr>"
  by (simp add: loaded_report_def load_reports_def fetchReports_def viewer_def may_view_def
      fetchReports_try_def initialFilters_def fetchReports_ids_def Let_def analysisIdsQuery_def
      run_query_def one_analysis_def matching_def ordered_def initial_price_report_def
      data_or_empty_def count_or_zero_def detail_query_def field_def ITEMS_PER_PAGE_reports_def)

text \<open>
  C3, as stated: whenever the lookup in the items yields no analysis identifier, the page
  displayed is empty and \<open>totalCount\<close> is 0. Between the lookup and the short-circuit the
  code awaits the id query and tests its answer (\<^verbatim>\<open>if (idError) throw idError\<close>): like
  every remote call it can be answered with an error. Here the view has
  loaded its one analysis, the user picks product \<open>p1\<close> (no item refers to it), and the
  reload reaches the items but not the analyses: the lookup succeeds and yields nothing,
  the id query fails, and the view keeps showing the earlier record with
  \<open>totalCount = 1\<close>.
\<close>

theorem failed_id_query_keeps_page:
  "productIds (filters product_chosen) \<noteq> [] \<and>
   error (with_faults analysis_down (run_query one_analysis)
            (items_query (filters product_chosen))) = None \<and>
   data_or_empty (with_faults analysis_down (run_query one_analysis)
            (items_query (filters product_chosen))) = [] \<and>
   \<not> loading (fst (load_reports viewer (with_faults analysis_down (run_query one_analysis))
                     product_chosen)) \<and>
   reports (fst (load_reports viewer (with_faults analysis_down (run_query one_analysis))
                   product_chosen)) \<noteq> [] \<and>
   totalCount (fst (load_reports viewer (with_faults analysis_down (run_query one_analysis))
                      product_chosen)) = 1"
  by (simp add: product_chosen_def loaded_report_eq handleProductFilterChange_def
      handleFilterChange_def toggle_def initialFilters_def with_faults_def analysis_down_def
      items_query_def run_query_def one_analysis_def matching_def ordered_def data_or_empty_def
      load_reports_def fetchReports_def viewer_def may_view_def fetchReports_try_def
      fetchReports_ids_def Let_def analysisIdsQuery_def failed_def field_def)

text \<open>
  C3, amended: with a non-empty product facet, whenever the lookup in the items succeeds
  and yields no analysis identifier, the load sends the lookup and then the id query
  restricted to the empty list of identifiers, and no other query: the paginated detail
  query is never sent. When that id query is answered, the load ends with an empty page,
  \<open>totalCount = 0\<close> and the loading flag cleared, the rest of the state untouched and
  nothing notified. When it is answered with an error (the branch
  \<^verbatim>\<open>if (idError) throw idError\<close>), the load notifies the failure and changes
  nothing but the loading flag: the page and \<open>totalCount\<close> stay as they were.
\<close>

theorem no_qualifying_ids_no_detail_query:
  assumes "may_view pp"
    and "productIds fs \<noteq> []"
    and "be = with_faults fails (run_query db)"
    and "error (be (items_query fs)) = None"
    and "data_or_empty (be (items_query fs)) = []"
  shows "filter is_remote (snd (fetchReports pp be page fs st)) =
           [Select (items_query fs), Select (ids_query_of fs [])] \<and>
         (fails (ids_query_of fs []) = None \<longrightarrow>
            fetchReports pp be page fs st =
              (st\<lparr>loading := False, totalCount := 0, reports := []\<rparr>,
               [Select (items_query fs), Select (ids_query_of fs [])]) \<and>
            reports (fst (fetchReports pp be page fs st)) = [] \<and>
            totalCount (fst (fetchReports pp be page fs st)) = 0 \<and>
            \<not> loading (fst (fetchReports pp be page fs st))) \<and>
         (fails (ids_query_of fs []) = Some msg \<longrightarrow>
            fetchReports pp be page fs st =
              (st\<lparr>loading := False\<rparr>,
               [Select (items_query fs), Select (ids_query_of fs []),
                Notification (''Failed to load reports: '' @ msg) ''error'']) \<and>
            reports (fst (fetchReports pp be page fs st)) = reports st \<and>
            totalCount (fst (fetchReports pp be page fs st)) = totalCount st \<and>
            \<not> loading (fst (fetchReports pp be page fs st)))"
proof (cases "fails (ids_query_of fs [])")
  case None
  have shape: "q_range (analysisIdsQuery fs) = None" "q_count (analysisIdsQuery fs)"
    by (simp_all add: analysisIdsQuery_def)
  have "run_query db (ids_query_of fs []) = \<lparr>data = Some [], error = None, count = Some 0\<rparr>"
    unfolding ids_query_of_def by (rule run_query_in_empty [OF shape])
  then have "be (ids_query_of fs []) = \<lparr>data = Some [], error = None, count = Some 0\<rparr>"
    unfolding assms(3) with_faults_def using None by simp
  then have "fetchReports pp be page fs st =
      (st\<lparr>loading := False, totalCount := 0, reports := []\<rparr>,
       [Select (items_query fs), Select (ids_query_of fs [])])"
    using assms(1,2,4,5)
    by (simp add: fetchReports_def fetchReports_try_def fetchReports_ids_def Let_def
        ids_query_of_def data_or_empty_def count_or_zero_def)
  with None show ?thesis by simp
next
  case (Some m)
  have "be (ids_query_of fs []) = failed m"
    unfolding assms(3) with_faults_def using Some by simp
  then have "fetchReports pp be page fs st =
      (st\<lparr>loading := False\<rparr>,
       [Select (items_query fs), Select (ids_query_of fs []),
        Notification (''Failed to load reports: '' @ m) ''error''])"
    using assms(1,2,4,5)
    by (simp add: fetchReports_def fetchReports_try_def fetchReports_ids_def Let_def
        ids_query_of_def failed_def)
  with Some show ?thesis by simp
qed

theorem no_qualifying_ids_no_detail_query_witness:
  "may_view viewer \<and>
   productIds (filters product_chosen) \<noteq> [] \<and>
   error (with_faults all_up (run_query one_analysis) (items_query (filters product_chosen))) = None \<and>
   data_or_empty (with_faults all_up (run_query one_analysis)
                    (items_query (filters product_chosen))) = [] \<and>
   all_up (ids_query_of (filters product_chosen) []) = None \<and>
   fetchReports viewer (with_faults all_up (run_query one_analysis)) 1
       (filters product_chosen) product_chosen =
     (product_chosen\<lparr>loading := False, totalCount := 0, reports := []\<rparr>,
      [Select (items_query (filters product_chosen)),
       Select (ids_query_of (filters product_chosen) [])]) \<and>
   reports product_chosen \<noteq> [] \<and>
   totalCount product_chosen = 1 \<and>
   error (with_faults analysis_down (run_query one_analysis)
            (items_query (filters product_chosen))) = None \<and>
   data_or_empty (with_faults analysis_down (run_query one_analysis)
                    (items_query (filters product_chosen))) = [] \<and>
   analysis_down (ids_query_of (filters product_chosen) []) = Some ''Failed to fetch'' \<and>
   fetchReports viewer (with_faults analysis_down (run_query one_analysis)) 1
       (filters product_chosen) product_chosen =
     (product_chosen\<lparr>loading := False\<rparr>,
      [Select (items_query (filters product_chosen)),
       Select (ids_query_of (filters product_chosen) []),
       Notification ''Failed to load reports: Failed to fetch'' ''error''])"
proof -
  have h1: "may_view viewer"
    by (simp add: viewer_def may_view_def)
  have fs: "filters product_chosen = initialFilters\<lparr>productIds := [''p1'']\<rparr>"
    by (simp add: product_chosen_def loaded_report_eq handleProductFilterChange_def
        handleFilterChange_def toggle_def initialFilters_def)
  have h2: "productIds (filters product_chosen) \<noteq> []"
    by (simp add: fs)
  have h4: "error (with_faults all_up (run_query one_analysis)
                     (items_query (filters product_chosen))) = None"
    by (simp add: fs with_faults_def all_up_def items_query_def run_query_def)
  have h5: "data_or_empty (with_faults all_up (run_query one_analysis)
                             (items_query (filters product_chosen))) = []"
    by (simp add: fs with_faults_def all_up_def items_query_def run_query_def one_analysis_def
        matching_def ordered_def data_or_empty_def)
  have h6: "all_up (ids_query_of (filters product_chosen) []) = None"
    by (simp add: all_up_def)
  have before: "reports product_chosen \<noteq> []" "totalCount product_chosen = 1"
    by (simp_all add: product_chosen_def loaded_report_eq handleProductFilterChange_def
        handleFilterChange_def)
  have g4: "error (with_faults analysis_down (run_query one_analysis)
                     (items_query (filters product_chosen))) = None"
    by (simp add: fs with_faults_def analysis_down_def items_query_def run_query_def)
  have g5: "data_or_empty (with_faults analysis_down (run_query one_analysis)
                             (items_query (filters product_chosen))) = []"
    by (simp add: fs with_faults_def analysis_down_def items_query_def run_query_def
        one_analysis_def matching_def ordered_def data_or_empty_def)
  have g6: "analysis_down (ids_query_of (filters product_chosen) []) = Some ''Failed to fetch''"
    by (simp add: analysis_down_def ids_query_of_def analysisIdsQuery_def)
  from no_qualifying_ids_no_detail_query
         [OF h1 h2 refl h4 h5, of 1 product_chosen "''Failed to fetch''"] h6
  have up: "fetchReports viewer (with_faults all_up (run_query one_analysis)) 1
       (filters product_chosen) product_chosen =
     (product_chosen\<lparr>loading := False, totalCount := 0, reports := []\<rparr>,
      [Select (items_query (filters product_chosen)),
       Select (ids_query_of (filters product_chosen) [])])"
    by blast
  from no_qualifying_ids_no_detail_query
         [OF h1 h2 refl g4 g5, of 1 product_chosen "''Failed to fetch''"] g6
  have down: "fetchReports viewer (with_faults analysis_down (run_query one_analysis)) 1
       (filters product_chosen) product_chosen =
     (product_chosen\<lparr>loading := False\<rparr>,
      [Select (items_query (filters product_chosen)),
       Select (ids_query_of (filters product_chosen) []),
       Notification (''Failed to load reports: '' @ ''Failed to fetch'') ''error''])"
    by blast
  from h1 h2 h4 h5 h6 before g4 g5 g6 up down show ?thesis
    by simp
qed

subsection \<open>Pages\<close>






lemma fetchInserts_page:
  assumes view: "may_view pp"
    and page: "1 \<le> currentPage st"
  shows "totalCount (fst (fetchInserts pp (run_query db) st)) =
           length (matching (db ''product_inserts'') (q_filters (inserts_query st)))"
    and "length (inserts (fst (fetchInserts pp (run_query db) st))) =
           min ITEMS_PER_PAGE_inserts
             (length (matching (db ''product_inserts'') (q_filters (inserts_query st)))
                - nat (currentPage st - 1) * ITEMS_PER_PAGE_inserts)"
proof -
  let ?M = "matching (db ''product_inserts'') (q_filters (inserts_query st))"
  have q: "inserts_query (st\<lparr>loading := True\<rparr>) = inserts_query st"
    by (simp add: inserts_query_def)
  have shape: "q_from (inserts_query st) = ''product_inserts''" "q_count (inserts_query st)"
      "q_order (inserts_query st) = Some (''created_at'', False)"
      "q_range (inserts_query st) =
         Some ((currentPage st - 1) * int ITEMS_PER_PAGE_inserts,
               (currentPage st - 1) * int ITEMS_PER_PAGE_inserts + int ITEMS_PER_PAGE_inserts - 1)"
    by (simp_all add: inserts_query_def Let_def)
  have lo: "0 \<le> (currentPage st - 1) * int ITEMS_PER_PAGE_inserts"
    using page by simp
  have n: "nat ((currentPage st - 1) * int ITEMS_PER_PAGE_inserts) =
           nat (currentPage st - 1) * ITEMS_PER_PAGE_inserts"
    using page by (simp add: nat_mult_distrib)
  have res: "run_query db (inserts_query st) =
      \<lparr>data = Some (take ITEMS_PER_PAGE_inserts
                (drop (nat (currentPage st - 1) * ITEMS_PER_PAGE_inserts)
                   (ordered (Some (''created_at'', False)) ?M))),
       error = None, count = Some (length ?M)\<rparr>"
    using lo shape n by (simp add: run_query_def Let_def length_ordered)
  show "totalCount (fst (fetchInserts pp (run_query db) st)) = length ?M"
    using view q res
    by (simp add: fetchInserts_def fetchInserts_try_def Let_def data_or_empty_def count_or_zero_def)
  show "length (inserts (fst (fetchInserts pp (run_query db) st))) =
           min ITEMS_PER_PAGE_inserts (length ?M - nat (currentPage st - 1) * ITEMS_PER_PAGE_inserts)"
    using view q res
    by (simp add: fetchInserts_def fetchInserts_try_def Let_def data_or_empty_def
        count_or_zero_def length_ordered min.commute)
qed



end
